theory Spec2Isabelle
  imports Complex_Main
begin

section \<open>Numbers and errors\<close>

text \<open>
  The calculator works on Python floats. They are modelled as exact reals: rounding,
  overflow and the non-finite values of IEEE arithmetic are outside the model, except
  where a division by zero decides whether the program raises.

  The type \<open>error\<close> lists what stops a calculation: the \<^verbatim>\<open>ValueError\<close>s of
  the lump-sum and arrears checks, each with a fixed message; the two of
  \<^verbatim>\<open>lookup_ax\<close>, with the values that their messages print; the early return of
  the batch calculation for a salary structure that is not found; Python's
  \<^verbatim>\<open>ZeroDivisionError\<close>; a power that leaves the real numbers; and an exception
  raised while a cell of the sheet is converted, with its message.
\<close>

datatype error =
    LumpsumBelowMinimum
  | LumpsumExceedsMaximum
  | LumpsumExceedsRegulatory
  | ArrearsExceedMaximum
  | InvalidGenderFrequency string int
  | AgeNotFound int
  | SalaryStructureNotFound
  | ZeroDivisionError
  | ComplexPower
  | ConversionError string

text \<open>
  \<^verbatim>\<open>x / y\<close> on Python numbers raises \<^verbatim>\<open>ZeroDivisionError\<close> when
  \<^verbatim>\<open>y\<close> is zero.
\<close>

definition py_div :: "real \<Rightarrow> real \<Rightarrow> error + real" where
  "py_div x y = (if y = 0 then Inl ZeroDivisionError else Inr (x / y))"

text \<open>
  \<^verbatim>\<open>x ** y\<close> on Python floats. A positive base gives the real power. Base zero
  raises \<^verbatim>\<open>ZeroDivisionError\<close> for a negative exponent. A negative base with a
  whole exponent gives the integer power; with a fractional exponent Python 3 returns a
  complex number, where the real-valued model stops with \<open>ComplexPower\<close>.
\<close>

definition py_pow :: "real \<Rightarrow> real \<Rightarrow> error + real" where
  "py_pow x y =
     (if 0 < x then Inr (x powr y)
      else if x = 0 then
        (if y < 0 then Inl ZeroDivisionError else if y = 0 then Inr 1 else Inr 0)
      else if y = of_int \<lfloor>y\<rfloor> then Inr (power_int x \<lfloor>y\<rfloor>)
      else Inl ComplexPower)"

text \<open>
  \<^verbatim>\<open>round(x, 0)\<close> on a float: the nearest whole number, a tie going to the even
  neighbour. The result is a float in Python; the model keeps the whole number.
\<close>

definition py_round :: "real \<Rightarrow> int" where
  "py_round x =
     (let f = \<lfloor>x\<rfloor>; r = x - of_int f
      in if r < 1 / 2 then f
         else if 1 / 2 < r then f + 1
         else if even f then f else f + 1)"

section \<open>Constants\<close>

text \<open>
  The module constants of the interactive application; the batch application sets the
  same values as attributes of \<^verbatim>\<open>PensionCalculator\<close>.
\<close>

definition MANAGEMENT_CHARGES :: real where "MANAGEMENT_CHARGES = 0.065"
definition REGULATORY_CHARGES :: real where "REGULATORY_CHARGES = 0.01"
definition INTEREST_RATE :: real where "INTEREST_RATE = 0.105"
definition DISCOUNT_RATE :: real where "DISCOUNT_RATE = 0.08"
definition MIN_LUMPSUM :: real where "MIN_LUMPSUM = 0"
definition MIN_PENSION_PAYOUT :: real where "MIN_PENSION_PAYOUT = 0.5"

definition INTEREST_RATE_NET_CHARGES :: real where
  "INTEREST_RATE_NET_CHARGES = INTEREST_RATE * (1 - MANAGEMENT_CHARGES - REGULATORY_CHARGES)"

text \<open>\<^verbatim>\<open>monthly_rate = INTEREST_RATE_NET_CHARGES / 12\<close>, in both files.\<close>

definition monthly_rate :: real where
  "monthly_rate = INTEREST_RATE_NET_CHARGES / 12"

section \<open>Financial primitives\<close>

text \<open>
  \<^verbatim>\<open>
  def pmt(rate, nper, pv, fv=0, when=0):
      if rate == 0:
          return -(pv + fv) / nper
      else:
          factor = (1 + rate) ** nper
          return -(pv * factor + fv) / ((1 + rate * when) * (factor - 1) / rate)
  \<close>
  The default arguments are written out at every call of the model.
\<close>

definition pmt :: "real \<Rightarrow> real \<Rightarrow> real \<Rightarrow> real \<Rightarrow> real \<Rightarrow> error + real" where
  "pmt rate nper pval fv when =
     (if rate = 0 then py_div (- (pval + fv)) nper
      else
        (case py_pow (1 + rate) nper of
           Inl e \<Rightarrow> Inl e
         | Inr factor \<Rightarrow>
             (case py_div ((1 + rate * when) * (factor - 1)) rate of
                Inl e \<Rightarrow> Inl e
              | Inr d \<Rightarrow> py_div (- (pval * factor + fv)) d)))"

text \<open>
  \<^verbatim>\<open>
  def pv(rate, nper, pmt, fv=0, when=0):
      if rate == 0:
          return -pmt * nper - fv
      else:
          factor = (1 + rate) ** nper
          return -(pmt * (1 + rate * when) * (factor - 1) / rate + fv) / factor
  \<close>
\<close>

definition pv :: "real \<Rightarrow> real \<Rightarrow> real \<Rightarrow> real \<Rightarrow> real \<Rightarrow> error + real" where
  "pv rate nper payment fv when =
     (if rate = 0 then Inr (- payment * nper - fv)
      else
        (case py_pow (1 + rate) nper of
           Inl e \<Rightarrow> Inl e
         | Inr factor \<Rightarrow>
             (case py_div (payment * (1 + rate * when) * (factor - 1)) rate of
                Inl e \<Rightarrow> Inl e
              | Inr q \<Rightarrow> py_div (- (q + fv)) factor)))"

section \<open>Lump-sum and arrears policy\<close>

text \<open>
  \<^verbatim>\<open>determine_lumpsum\<close> is the same text in both files (a function in the
  interactive application, a method of \<^verbatim>\<open>PensionCalculator\<close> in the batch
  application).
\<close>

definition determine_lumpsum :: "real \<Rightarrow> real \<Rightarrow> real \<Rightarrow> real" where
  "determine_lumpsum max_lumpsum adjusted_rsa regulatory =
     (if max_lumpsum > adjusted_rsa then adjusted_rsa
      else if max_lumpsum > regulatory then max_lumpsum
      else regulatory)"

text \<open>
  \<^verbatim>\<open>compute_final_monthly_pension\<close>: three checks in sequence, each raising, then
  \<^verbatim>\<open>-1 * pmt(monthly_rate, nper, residual, fv=0, when=1)\<close>.
\<close>

definition compute_final_monthly_pension ::
  "real \<Rightarrow> real \<Rightarrow> real \<Rightarrow> real \<Rightarrow> real \<Rightarrow> real \<Rightarrow> real \<Rightarrow> error + real" where
  "compute_final_monthly_pension final_lumpsum min_lumpsum max_lumpsum regulatory_lumpsum
       new_adjusted_balance rate nper =
     (if final_lumpsum < min_lumpsum then Inl LumpsumBelowMinimum
      else if max_lumpsum > regulatory_lumpsum \<and> final_lumpsum > max_lumpsum
        then Inl LumpsumExceedsMaximum
      else if max_lumpsum < regulatory_lumpsum \<and> final_lumpsum > regulatory_lumpsum
        then Inl LumpsumExceedsRegulatory
      else
        (let residual = new_adjusted_balance - final_lumpsum
         in case pmt rate nper residual 0 1 of
              Inl e \<Rightarrow> Inl e
            | Inr p \<Rightarrow> Inr (-1 * p)))"

text \<open>
  \<^verbatim>\<open>get_final_arrears_months\<close> compares two numbers (an int against the float
  that \<^verbatim>\<open>round\<close> returned, in the application); the model is polymorphic in the
  ordered type.
\<close>

definition get_final_arrears_months :: "'a::linorder \<Rightarrow> 'a \<Rightarrow> error + 'a" where
  "get_final_arrears_months negotiated_months max_allowable_months =
     (if negotiated_months > max_allowable_months then Inl ArrearsExceedMaximum
      else if negotiated_months < max_allowable_months then Inr negotiated_months
      else Inr max_allowable_months)"

definition calculate_pension_arrears :: "int \<Rightarrow> real \<Rightarrow> real \<Rightarrow> real" where
  "calculate_pension_arrears frequency final_arrears_months final_monthly_pension =
     (if frequency = 4 then (final_arrears_months / 3) * final_monthly_pension
      else final_arrears_months * final_monthly_pension)"

section \<open>Dates\<close>

text \<open>
  A calendar date, ordered as \<^verbatim>\<open>datetime\<close> orders them. The regulatory cutoff
  is \<^verbatim>\<open>datetime.strptime("01-09-2024", "%d-%m-%Y")\<close>.
\<close>

datatype date = Date (year: int) (month: int) (day: int)

definition date_le :: "date \<Rightarrow> date \<Rightarrow> bool" where
  "date_le a b =
     (year a < year b
      \<or> (year a = year b \<and> (month a < month b \<or> (month a = month b \<and> day a \<le> day b))))"

definition cutoff_date :: date where
  "cutoff_date = Date 2024 9 1"

text \<open>
  \<^verbatim>\<open>relativedelta(end_date, start_date)\<close> comes from the \<^verbatim>\<open>dateutil\<close>
  library, which is not part of the repository: the functions below take it as the
  parameter \<open>rd\<close> and read the attributes \<^verbatim>\<open>years\<close>, \<^verbatim>\<open>months\<close> and
  \<^verbatim>\<open>days\<close> of its result.
\<close>

record relativedelta =
  years :: int
  months :: int
  days :: int

type_synonym delta_fn = "date \<Rightarrow> date \<Rightarrow> relativedelta"

text \<open>
  \<^verbatim>\<open>datedif(start_date, end_date, "Y")\<close>. The applications call
  \<^verbatim>\<open>datedif\<close> with the unit \<^verbatim>\<open>"Y"\<close> only.
\<close>

definition datedif_Y :: "delta_fn \<Rightarrow> date \<Rightarrow> date \<Rightarrow> int" where
  "datedif_Y rd start_date end_date = years (rd end_date start_date)"

definition yearfrac :: "delta_fn \<Rightarrow> date \<Rightarrow> date \<Rightarrow> real" where
  "yearfrac rd start_date end_date =
     (let delta = rd end_date start_date
      in of_int (years delta) + of_int (months delta) / 12 + of_int (days delta) / 365.25)"

text \<open>
  The maximum arrears, the same statements in \<^verbatim>\<open>main\<close> of the interactive
  application and in \<^verbatim>\<open>process_single_client\<close>:
  \<^verbatim>\<open>
  max_arrears_years = yearfrac(retirement_date, programming_date)
  max_arrears_months = max_arrears_years * 12
  if sector == "PR":
      max_arrears_months = min(max_arrears_months, 6)
  max_arrears = round(max_arrears_months, 0)
  \<close>
\<close>

definition max_arrears :: "delta_fn \<Rightarrow> string \<Rightarrow> date \<Rightarrow> date \<Rightarrow> int" where
  "max_arrears rd sector retirement_date programming_date =
     (let max_arrears_years = yearfrac rd retirement_date programming_date;
          max_arrears_months = max_arrears_years * 12;
          max_arrears_months =
            (if sector = ''PR'' then min max_arrears_months 6 else max_arrears_months)
      in py_round max_arrears_months)"

section \<open>Strings and lookup tables\<close>

text \<open>
  \<^verbatim>\<open>str.upper\<close> and \<^verbatim>\<open>str.lower\<close>, on ASCII text: the letters change case,
  every other character stays.
\<close>

definition upper_char :: "char \<Rightarrow> char" where
  "upper_char c =
     (let n = (of_char c :: nat) in if 97 \<le> n \<and> n \<le> 122 then char_of (n - 32) else c)"

definition lower_char :: "char \<Rightarrow> char" where
  "lower_char c =
     (let n = (of_char c :: nat) in if 65 \<le> n \<and> n \<le> 90 then char_of (n + 32) else c)"

definition upper :: "string \<Rightarrow> string" where
  "upper s = map upper_char s"

definition lower :: "string \<Rightarrow> string" where
  "lower s = map lower_char s"

text \<open>
  The five tables read from CSV files: four annuity-factor tables with the columns
  \<^verbatim>\<open>age\<close> and \<^verbatim>\<open>ax\<close>, and the salary structure with the columns
  \<^verbatim>\<open>Salary Structure\<close>, \<^verbatim>\<open>Grade Level\<close>, \<^verbatim>\<open>Step\<close> and
  \<^verbatim>\<open>Annual Salary\<close>. A table is the list of its rows, in file order.
\<close>

type_synonym ax_table = "(int \<times> real) list"

type_synonym salary_rows = "(string \<times> string \<times> string \<times> real) list"

record lookup_tables =
  male4 :: ax_table
  male12 :: ax_table
  female4 :: ax_table
  female12 :: ax_table
  salary_table :: salary_rows

text \<open>
  \<^verbatim>\<open>get_annual_salary\<close>: the rows whose structure matches without regard to case
  and whose grade level and step match as text; the first such row's annual salary, or
  \<^verbatim>\<open>None\<close>.
\<close>

definition get_annual_salary :: "salary_rows \<Rightarrow> string \<Rightarrow> string \<Rightarrow> string \<Rightarrow> real option" where
  "get_annual_salary df salary_structure grade_level step =
     (case filter (\<lambda>(s, g, t, a). lower s = lower salary_structure \<and> g = grade_level \<and> t = step) df of
        [] \<Rightarrow> None
      | (s, g, t, a) # _ \<Rightarrow> Some a)"

text \<open>
  \<^verbatim>\<open>PensionCalculator.lookup_ax\<close>: the table for the gender and frequency, then the
  first row of that table with the retirement age.
\<close>

definition lookup_ax :: "lookup_tables \<Rightarrow> string \<Rightarrow> int \<Rightarrow> int \<Rightarrow> error + real" where
  "lookup_ax tables gender frequency retirement_age =
     (case (if upper gender = ''M'' \<and> frequency = 4 then Inr (male4 tables)
            else if upper gender = ''M'' \<and> frequency = 12 then Inr (male12 tables)
            else if upper gender = ''F'' \<and> frequency = 4 then Inr (female4 tables)
            else if upper gender = ''F'' \<and> frequency = 12 then Inr (female12 tables)
            else Inl (InvalidGenderFrequency gender frequency)) of
        Inl e \<Rightarrow> Inl e
      | Inr table \<Rightarrow>
          (case filter (\<lambda>(age, ax). age = retirement_age) table of
             [] \<Rightarrow> Inl (AgeNotFound retirement_age)
           | (age, ax) # _ \<Rightarrow> Inr ax))"

section \<open>Salary resolution\<close>

text \<open>
  The interactive application, \<^verbatim>\<open>main\<close>: the salary-structure branch needs the
  three text inputs to be non-empty; the declared branch is
  \<^verbatim>\<open>validated_salary = monthly_salary * 12 if monthly_salary > 0 else None\<close>.
\<close>

definition main_validated_salary ::
  "salary_rows \<Rightarrow> string \<Rightarrow> date \<Rightarrow> string \<Rightarrow> string \<Rightarrow> string \<Rightarrow> real \<Rightarrow> real option" where
  "main_validated_salary df sector retirement_date salary_structure grade_level step monthly_salary =
     (if sector = ''PU'' \<and> date_le cutoff_date retirement_date then
        (if salary_structure \<noteq> [] \<and> grade_level \<noteq> [] \<and> step \<noteq> []
         then get_annual_salary df salary_structure grade_level step
         else None)
      else if monthly_salary > 0 then Some (monthly_salary * 12) else None)"

text \<open>
  In the batch application the validated salary is a \<^verbatim>\<open>numpy.float64\<close> when it
  comes from the salary table and a Python float when it comes from the declared monthly
  salary. The two differ at a division by zero: the Python float raises, the numpy
  value becomes non-finite without raising.
\<close>

datatype salary = PyFloat real | NpFloat real

fun salary_value :: "salary \<Rightarrow> real" where
  "salary_value (PyFloat x) = x"
| "salary_value (NpFloat x) = x"

text \<open>
  A row of the uploaded sheet. A cell that the program converts
  (\<^verbatim>\<open>pd.to_datetime\<close>, \<^verbatim>\<open>int\<close>, \<^verbatim>\<open>float\<close>) holds the converted value, or
  the message of the exception that the conversion raises. Every column is present;
  empty (NaN) cells are outside the model.
\<close>

record client_row =
  r_client_id :: string
  r_date_of_birth :: "string + date"
  r_retirement_date :: "string + date"
  r_programming_date :: "string + date"
  r_gender :: string
  r_sector :: string
  r_frequency :: "string + int"
  r_rsa_balance :: "string + real"
  r_salary_structure :: string
  r_grade_level :: string
  r_step :: string
  r_monthly_salary :: "string + real"

text \<open>
  \<^verbatim>\<open>process_single_client\<close>, the salary statements: the structure lookup returns
  an error result when no row matches; the declared branch is
  \<^verbatim>\<open>validated_salary = monthly_salary * 12\<close>.
\<close>

definition batch_validated_salary ::
  "lookup_tables \<Rightarrow> string \<Rightarrow> date \<Rightarrow> client_row \<Rightarrow> error + salary" where
  "batch_validated_salary tables sector retirement_date row =
     (if sector = ''PU'' \<and> date_le cutoff_date retirement_date then
        (case get_annual_salary (salary_table tables)
                (r_salary_structure row) (r_grade_level row) (r_step row) of
           None \<Rightarrow> Inl SalaryStructureNotFound
         | Some a \<Rightarrow> Inr (NpFloat a))
      else
        (case r_monthly_salary row of
           Inl msg \<Rightarrow> Inl (ConversionError msg)
         | Inr monthly_salary \<Rightarrow> Inr (PyFloat (monthly_salary * 12))))"

section \<open>The batch engine\<close>

text \<open>
  The annuity factor read from a table is a \<^verbatim>\<open>numpy.float64\<close>, and so is every
  number computed from it. Such a value is a finite number, modelled as a real, or one
  of \<^verbatim>\<open>inf\<close>, \<^verbatim>\<open>-inf\<close> and \<^verbatim>\<open>nan\<close>: numpy divides by zero without
  raising (the application silences the warning). Adding, subtracting or multiplying a
  non-finite value and a finite one stays non-finite.
\<close>

datatype npfloat = Finite real | NonFinite

definition np_of :: "error + real \<Rightarrow> npfloat" where
  "np_of r = (case r of Inl e \<Rightarrow> NonFinite | Inr x \<Rightarrow> Finite x)"

definition np_map :: "(real \<Rightarrow> real) \<Rightarrow> npfloat \<Rightarrow> npfloat" where
  "np_map f x = (case x of Finite a \<Rightarrow> Finite (f a) | NonFinite \<Rightarrow> NonFinite)"

definition np_map2 :: "(real \<Rightarrow> real \<Rightarrow> real) \<Rightarrow> npfloat \<Rightarrow> npfloat \<Rightarrow> npfloat" where
  "np_map2 f x y =
     (case x of
        Finite a \<Rightarrow> (case y of Finite b \<Rightarrow> Finite (f a b) | NonFinite \<Rightarrow> NonFinite)
      | NonFinite \<Rightarrow> NonFinite)"

text \<open>
  \<^verbatim>\<open>validated_salary / frequency\<close>. A Python float divided by zero raises. A
  \<^verbatim>\<open>numpy.float64\<close> divided by zero is non-finite and does not raise; the value
  the model gives there is never read, because \<^verbatim>\<open>lookup_ax\<close>, the next statement
  that can raise, rejects the frequency zero.
\<close>

definition salary_per_period :: "salary \<Rightarrow> int \<Rightarrow> error + real" where
  "salary_per_period validated_salary frequency =
     (case validated_salary of
        PyFloat x \<Rightarrow> py_div x (of_int frequency)
      | NpFloat x \<Rightarrow> Inr (x / of_int frequency))"

text \<open>
  \<^verbatim>\<open>process_single_client\<close>, from the adjusted balance to the maximum lump-sum:
  \<^verbatim>\<open>
  preferred_max_arrears_years = preferred_arrears / 12
  new_adjusted_balance = rsa_balance * ((1 + self.discount_rate) ** -preferred_max_arrears_years)
  regulatory_lumpsum = rsa_balance * 0.25
  fifty_percent_salary = (validated_salary / frequency) * self.min_pension_payout
  ax_value = self.lookup_ax(gender, frequency, retirement_age)
  nc = ax_value - (11/24)
  nper = 2 * frequency * nc
  max_lumpsum = max(0, (new_adjusted_balance + self.pv(self.monthly_rate, nper, fifty_percent_salary, fv=0, when=1)))
  \<close>
  The model returns the local variables that the rest of the calculation reads.
\<close>

record limits =
  lim_adjusted_balance :: real
  lim_regulatory_lumpsum :: real
  lim_fifty_percent_salary :: real
  lim_nper :: real
  lim_max_lumpsum :: real

definition lumpsum_limits ::
  "lookup_tables \<Rightarrow> string \<Rightarrow> int \<Rightarrow> int \<Rightarrow> real \<Rightarrow> real \<Rightarrow> salary \<Rightarrow> error + limits" where
  "lumpsum_limits tables gender frequency retirement_age rsa_balance preferred_arrears
       validated_salary =
     (let preferred_max_arrears_years = preferred_arrears / 12 in
      (case py_pow (1 + DISCOUNT_RATE) (- preferred_max_arrears_years) of
         Inl e \<Rightarrow> Inl e
       | Inr discount \<Rightarrow>
      (let new_adjusted_balance = rsa_balance * discount;
           regulatory_lumpsum = rsa_balance * 0.25 in
      (case salary_per_period validated_salary frequency of
         Inl e \<Rightarrow> Inl e
       | Inr per_period \<Rightarrow>
      (let fifty_percent_salary = per_period * MIN_PENSION_PAYOUT in
      (case lookup_ax tables gender frequency retirement_age of
         Inl e \<Rightarrow> Inl e
       | Inr ax_value \<Rightarrow>
      (let nc = ax_value - 11 / 24;
           nper = 2 * of_int frequency * nc in
      (case pv monthly_rate nper fifty_percent_salary 0 1 of
         Inl e \<Rightarrow> Inl e
       | Inr present \<Rightarrow>
           Inr \<lparr>lim_adjusted_balance = new_adjusted_balance,
                lim_regulatory_lumpsum = regulatory_lumpsum,
                lim_fifty_percent_salary = fifty_percent_salary,
                lim_nper = nper,
                lim_max_lumpsum = max 0 (new_adjusted_balance + present)\<rparr>))))))))"

text \<open>
  The output record of one client. \<^verbatim>\<open>None\<close> is Python's \<^verbatim>\<open>None\<close>; the error
  message is empty on success, and otherwise the text of the error that \<open>error\<close>
  stands for.
\<close>

record result =
  client_id :: string
  status :: string
  error_message :: "error option"
  current_age :: "int option"
  retirement_age :: "int option"
  validated_salary :: "real option"
  max_arrears_months :: "int option"
  final_lumpsum :: "real option"
  final_monthly_pension :: "npfloat option"
  pension_arrears :: "npfloat option"
  total_benefit :: "npfloat option"
  annuity_premium :: "npfloat option"

definition create_error_result :: "client_row \<Rightarrow> error \<Rightarrow> result" where
  "create_error_result row err =
     \<lparr>client_id = r_client_id row,
      status = ''ERROR'',
      error_message = Some err,
      current_age = None,
      retirement_age = None,
      validated_salary = None,
      max_arrears_months = None,
      final_lumpsum = None,
      final_monthly_pension = None,
      pension_arrears = None,
      total_benefit = None,
      annuity_premium = None\<rparr>"

text \<open>
  The body of the \<^verbatim>\<open>try\<close> block of \<^verbatim>\<open>process_single_client\<close>. \<open>Inl\<close> is
  an exception raised on the way, or the early return for a salary structure that is
  not found; \<open>Inr\<close> is the success record. The final pension is
  \<^verbatim>\<open>-1 * self.pmt(self.monthly_rate, nper, residual, fv=0, when=1)\<close> on numpy
  values: where \<open>pmt\<close> on Python floats raises at a division by zero, the numpy
  result is non-finite. A local variable whose name is also a field of the result
  record has a shorter name here (\<open>age_now\<close> for \<^verbatim>\<open>current_age\<close>,
  \<open>lumpsum\<close> for \<^verbatim>\<open>final_lumpsum\<close>, and so on).
\<close>

definition client_calculation :: "delta_fn \<Rightarrow> lookup_tables \<Rightarrow> client_row \<Rightarrow> error + result" where
  "client_calculation rd tables row =
     (case r_date_of_birth row of Inl msg \<Rightarrow> Inl (ConversionError msg) | Inr dob \<Rightarrow>
     (case r_retirement_date row of Inl msg \<Rightarrow> Inl (ConversionError msg) | Inr retirement_date \<Rightarrow>
     (case r_programming_date row of Inl msg \<Rightarrow> Inl (ConversionError msg) | Inr programming_date \<Rightarrow>
     (let gender = upper (r_gender row);
          sector = upper (r_sector row) in
     (case r_frequency row of Inl msg \<Rightarrow> Inl (ConversionError msg) | Inr frequency \<Rightarrow>
     (case r_rsa_balance row of Inl msg \<Rightarrow> Inl (ConversionError msg) | Inr rsa_balance \<Rightarrow>
     (let age_now = datedif_Y rd dob programming_date;
          age_retired = datedif_Y rd dob retirement_date in
     (case batch_validated_salary tables sector retirement_date row of
        Inl e \<Rightarrow> Inl e
      | Inr salary \<Rightarrow>
     (let arrears = max_arrears rd sector retirement_date programming_date;
          preferred_arrears = of_int arrears in
     (case lumpsum_limits tables gender frequency age_retired rsa_balance preferred_arrears
             salary of
        Inl e \<Rightarrow> Inl e
      | Inr bounds \<Rightarrow>
     (let recommended_lumpsum =
            determine_lumpsum (lim_max_lumpsum bounds) (lim_adjusted_balance bounds)
              (lim_regulatory_lumpsum bounds);
          lumpsum = recommended_lumpsum;
          residual = lim_adjusted_balance bounds - lumpsum;
          pension = np_map (\<lambda>p. -1 * p) (np_of (pmt monthly_rate (lim_nper bounds) residual 0 1));
          arrears_amount = np_map (calculate_pension_arrears frequency preferred_arrears) pension;
          total = np_map (\<lambda>a. lumpsum + a) arrears_amount;
          premium = np_map2 (\<lambda>t p. rsa_balance - t - p) total pension
      in Inr \<lparr>client_id = r_client_id row,
               status = ''SUCCESS'',
               error_message = None,
               current_age = Some age_now,
               retirement_age = Some age_retired,
               validated_salary = Some (salary_value salary),
               max_arrears_months = Some arrears,
               final_lumpsum = Some lumpsum,
               final_monthly_pension = Some pension,
               pension_arrears = Some arrears_amount,
               total_benefit = Some total,
               annuity_premium = Some premium\<rparr>)))))))))))"

text \<open>
  \<^verbatim>\<open>process_single_client\<close>: the \<^verbatim>\<open>except Exception\<close> clause turns every
  exception of the body into an error record.
\<close>

definition process_single_client :: "delta_fn \<Rightarrow> lookup_tables \<Rightarrow> client_row \<Rightarrow> result" where
  "process_single_client rd tables row =
     (case client_calculation rd tables row of
        Inl e \<Rightarrow> create_error_result row e
      | Inr res \<Rightarrow> res)"

text \<open>
  \<^verbatim>\<open>process_batch\<close>: the loop over the rows of the sheet appends one result per row.
  The progress display is left out.
\<close>

fun process_batch_loop ::
  "delta_fn \<Rightarrow> lookup_tables \<Rightarrow> client_row list \<Rightarrow> result list \<Rightarrow> result list" where
  "process_batch_loop rd tables [] results = results"
| "process_batch_loop rd tables (row # rows) results =
     process_batch_loop rd tables rows (results @ [process_single_client rd tables row])"

definition process_batch :: "delta_fn \<Rightarrow> lookup_tables \<Rightarrow> client_row list \<Rightarrow> result list" where
  "process_batch rd tables df = process_batch_loop rd tables df []"

section \<open>Scenario data\<close>

text \<open>
  The end-to-end scenario of the specification, used where a theorem is evaluated on a
  concrete client: born 1970-01-01, retiring and valued on 2030-01-01, private sector,
  male, monthly payments, a balance of 1,000,000. For two dates with the same month
  and day \<^verbatim>\<open>relativedelta\<close> is the difference of the years, with no months and
  no days left over. The declared salary cell and the rows of the \<^verbatim>\<open>Male12\<close> table
  vary from theorem to theorem.
\<close>

abbreviation scenario_delta :: delta_fn where
  "scenario_delta \<equiv> (\<lambda>end_date start_date.
     \<lparr>years = year end_date - year start_date, months = 0, days = 0\<rparr>)"

abbreviation scenario_row :: "string + real \<Rightarrow> client_row" where
  "scenario_row salary_cell \<equiv>
     \<lparr>r_client_id = ''A1'',
      r_date_of_birth = Inr (Date 1970 1 1),
      r_retirement_date = Inr (Date 2030 1 1),
      r_programming_date = Inr (Date 2030 1 1),
      r_gender = ''M'',
      r_sector = ''PR'',
      r_frequency = Inr 12,
      r_rsa_balance = Inr 1000000,
      r_salary_structure = [],
      r_grade_level = [],
      r_step = [],
      r_monthly_salary = salary_cell\<rparr>"

abbreviation scenario_tables :: "ax_table \<Rightarrow> lookup_tables" where
  "scenario_tables male12_rows \<equiv>
     \<lparr>male4 = [], male12 = male12_rows, female4 = [], female12 = [], salary_table = []\<rparr>"

section \<open>Financial primitives: values and the round trip\<close>

lemma powr_neq_one:
  fixes x y :: real
  assumes "0 < x" and "x \<noteq> 1" and "y \<noteq> 0"
  shows "x powr y \<noteq> 1"
proof
  assume "x powr y = 1"
  then have "exp (y * ln x) = 1" using assms(1) by (simp add: powr_def)
  then have "y * ln x = 0" by simp
  then have "ln x = 0" using assms(3) by simp
  then show False using assms(1,2) by simp
qed

lemma pmt_value:
  assumes "rate \<noteq> 0" and "-1 < rate" and "n \<noteq> 0" and "due = 0 \<or> due = 1"
  shows "pmt rate n pval fv due =
    Inr (- (pval * (1 + rate) powr n + fv) / ((1 + rate * due) * ((1 + rate) powr n - 1) / rate))"
    and "(1 + rate * due) * ((1 + rate) powr n - 1) / rate \<noteq> 0"
proof -
  have pos: "0 < 1 + rate" using assms(2) by simp
  have ne1: "(1 + rate) powr n \<noteq> 1"
    using powr_neq_one [of "1 + rate" n] pos assms(1,3) by simp
  have due: "1 + rate * due \<noteq> 0" using assms(2,4) by auto
  show d: "(1 + rate * due) * ((1 + rate) powr n - 1) / rate \<noteq> 0"
    using ne1 due assms(1) by simp
  show "pmt rate n pval fv due =
    Inr (- (pval * (1 + rate) powr n + fv) / ((1 + rate * due) * ((1 + rate) powr n - 1) / rate))"
    using d pos assms(1) by (simp add: pmt_def py_pow_def py_div_def)
qed

lemma pv_value:
  assumes "rate \<noteq> 0" and "-1 < rate"
  shows "pv rate n payment fv due =
    Inr (- (payment * (1 + rate * due) * ((1 + rate) powr n - 1) / rate + fv) / (1 + rate) powr n)"
proof -
  have pos: "0 < 1 + rate" using assms(2) by simp
  then have "(1 + rate) powr n \<noteq> 0" by simp
  then show ?thesis using pos assms(1) by (simp add: pv_def py_pow_def py_div_def)
qed

lemma pmt_returns:
  assumes "-1 < rate" and "nper \<noteq> 0" and "due = 0 \<or> due = 1"
  shows "\<exists>p. pmt rate nper pval fv due = Inr p"
proof (cases "rate = 0")
  case True
  then show ?thesis using assms(2) by (simp add: pmt_def py_div_def)
next
  case False
  then show ?thesis using pmt_value(1) [OF False assms] by blast
qed

lemma pmt_not_validation_error:
  "pmt rate nper pval fv when \<noteq> Inl LumpsumBelowMinimum
   \<and> pmt rate nper pval fv when \<noteq> Inl LumpsumExceedsMaximum
   \<and> pmt rate nper pval fv when \<noteq> Inl LumpsumExceedsRegulatory"
  by (simp add: pmt_def py_div_def py_pow_def split: sum.splits)

lemma monthly_rate_value: "monthly_rate = 0.105 * (1 - 0.065 - 0.01) / 12"
  by (simp add: monthly_rate_def INTEREST_RATE_NET_CHARGES_def INTEREST_RATE_def
      MANAGEMENT_CHARGES_def REGULATORY_CHARGES_def)

lemma monthly_rate_pos: "0 < monthly_rate"
  by (simp add: monthly_rate_value)

lemma pv_monthly_rate_returns: "\<exists>present. pv monthly_rate nper payment fv due = Inr present"
  using pv_value [of monthly_rate nper payment fv due] monthly_rate_pos by simp

lemma pmt_zero_residual:
  assumes "nper \<noteq> 0"
  shows "pmt monthly_rate nper 0 0 1 = Inr 0"
  using pmt_value(1) [of monthly_rate nper 1 0 0] monthly_rate_pos assms by simp

lemma pv_zero_payment: "pv monthly_rate nper 0 0 1 = Inr 0"
  using pv_value [of monthly_rate nper 0 0 1] monthly_rate_pos by simp

lemma discount_value: "py_pow (1 + DISCOUNT_RATE) y = Inr ((1 + 0.08) powr y)"
  by (simp add: py_pow_def DISCOUNT_RATE_def)

text \<open>
  C8. As stated, for every non-zero rate and every non-zero number of periods, the claim
  fails: at rate \<open>-2\<close> and two periods the factor \<open>(1 + rate) ** nper\<close> is 1 and
  \<open>pmt\<close> divides by zero. What holds: for every non-zero rate above \<open>-1\<close>, every
  non-zero number of periods, every present and future value and a due flag of 0 or 1,
  \<open>pmt\<close> returns a payment and \<open>pv\<close> of that payment returns the present value,
  exactly, over the reals.
\<close>

theorem pv_pmt_inverse:
  assumes "rate \<noteq> 0" and "-1 < rate" and "n \<noteq> 0" and "due = 0 \<or> due = 1"
  shows "\<exists>p. pmt rate n pv0 fv due = Inr p \<and> pv rate n p fv due = Inr pv0"
proof -
  define F where "F = (1 + rate) powr n"
  define d where "d = (1 + rate * due) * (F - 1) / rate"
  define p where "p = - (pv0 * F + fv) / d"
  have Fpos: "0 < F" using assms(2) by (simp add: F_def)
  have d0: "d \<noteq> 0" using pmt_value(2) [OF assms] by (simp add: d_def F_def)
  have 1: "pmt rate n pv0 fv due = Inr p"
    using pmt_value(1) [OF assms] by (simp add: p_def d_def F_def)
  have "p * (1 + rate * due) * (F - 1) / rate = p * d" by (simp add: d_def)
  also have "\<dots> = - (pv0 * F + fv)" using d0 by (simp add: p_def)
  finally have "- (p * (1 + rate * due) * (F - 1) / rate + fv) / F = pv0"
    using Fpos by (simp add: field_simps)
  then have 2: "pv rate n p fv due = Inr pv0"
    using pv_value [OF assms(1,2)] by (simp add: F_def)
  from 1 2 show ?thesis by blast
qed

theorem pv_pmt_inverse_witness:
  "(1::real) \<noteq> 0 \<and> -1 < (1::real) \<and> (1::real) \<noteq> 0 \<and> ((1::real) = 0 \<or> (1::real) = 1)
   \<and> pmt 1 1 100 0 1 = Inr (-100) \<and> pv 1 1 (-100) 0 1 = Inr 100"
proof -
  have "\<exists>p. pmt 1 1 100 0 1 = Inr p \<and> pv 1 1 p 0 1 = Inr 100"
    using pv_pmt_inverse [where rate = 1 and n = 1 and due = 1 and ?pv0.0 = 100 and fv = 0]
    by simp
  moreover have "pmt 1 1 100 0 1 = Inr (-100)"
    by (simp add: pmt_def py_pow_def py_div_def)
  ultimately show ?thesis by auto
qed

theorem pv_pmt_inverse_counterexample:
  "(-2::real) \<noteq> 0 \<and> (2::real) \<noteq> 0 \<and> pmt (-2) 2 100 0 0 = Inl ZeroDivisionError"
  by (simp add: pmt_def py_pow_def py_div_def)

text \<open>
  At rate \<open>-1\<close> the payment is computed and it is \<open>pv\<close> that divides by zero.
\<close>

lemma pv_raises_at_rate_minus_one:
  "pmt (-1) 1 100 0 0 = Inr 0 \<and> pv (-1) 1 0 0 0 = Inl ZeroDivisionError"
  by (simp add: pmt_def pv_def py_pow_def py_div_def)

section \<open>Lump-sum policy\<close>

text \<open>
  C2. \<open>determine_lumpsum\<close> returns the adjusted balance when the maximum exceeds it,
  otherwise the maximum when that exceeds the regulatory amount, otherwise the regulatory
  amount; the three literal cases of the specification are instances.
\<close>

theorem determine_lumpsum_branches:
  "(a < m \<longrightarrow> determine_lumpsum m a r = a)
   \<and> (\<not> a < m \<and> r < m \<longrightarrow> determine_lumpsum m a r = m)
   \<and> (\<not> a < m \<and> \<not> r < m \<longrightarrow> determine_lumpsum m a r = r)
   \<and> determine_lumpsum 100 80 50 = 80
   \<and> determine_lumpsum 70 80 50 = 70
   \<and> determine_lumpsum 40 80 50 = 50"
  by (simp add: determine_lumpsum_def)

theorem determine_lumpsum_branches_witness:
  "((80::real) < 100 \<and> determine_lumpsum 100 80 50 = 80)
   \<and> (\<not> (80::real) < 70 \<and> (50::real) < 70 \<and> determine_lumpsum 70 80 50 = 70)
   \<and> (\<not> (80::real) < 40 \<and> \<not> (50::real) < 40 \<and> determine_lumpsum 40 80 50 = 50)"
  using determine_lumpsum_branches [where m = 100 and a = 80 and r = 50]
    determine_lumpsum_branches [where m = 70 and a = 80 and r = 50]
    determine_lumpsum_branches [where m = 40 and a = 80 and r = 50]
  by simp

lemma no_check_fires:
  assumes "\<not> chosen < 0"
    and "\<not> (reg < maxl \<and> maxl < chosen)"
    and "\<not> (maxl < reg \<and> reg < chosen)"
  shows "compute_final_monthly_pension chosen MIN_LUMPSUM maxl reg adj rate nper
          = (case pmt rate nper (adj - chosen) 0 1 of Inl e \<Rightarrow> Inl e | Inr p \<Rightarrow> Inr (- p))"
  using assms
  by (auto simp add: compute_final_monthly_pension_def MIN_LUMPSUM_def split: sum.splits)

text \<open>
  C1. With the minimum lump-sum of the application (zero),
  \<open>compute_final_monthly_pension\<close> applies its checks in order: it fails with the
  below-minimum error exactly when the chosen amount is negative; otherwise with the
  exceeds-maximum error exactly when the maximum is above the regulatory amount and the
  chosen amount is above the maximum; otherwise with the exceeds-regulatory error exactly
  when the maximum is below the regulatory amount and the chosen amount is above the
  regulatory amount; and when no check fires the result is the negated
  \<open>pmt rate nper (adjusted - chosen) 0 1\<close>. When the maximum (or the regulatory
  amount) is not negative, as in the application, the earlier check cannot shadow the
  later one and the condition of each upper-limit error stands alone.
\<close>

theorem compute_final_monthly_pension_checks:
  "(compute_final_monthly_pension chosen MIN_LUMPSUM maxl reg adj rate nper
        = Inl LumpsumBelowMinimum
      \<longleftrightarrow> chosen < 0)
   \<and> (compute_final_monthly_pension chosen MIN_LUMPSUM maxl reg adj rate nper
        = Inl LumpsumExceedsMaximum
      \<longleftrightarrow> \<not> chosen < 0 \<and> reg < maxl \<and> maxl < chosen)
   \<and> (compute_final_monthly_pension chosen MIN_LUMPSUM maxl reg adj rate nper
        = Inl LumpsumExceedsRegulatory
      \<longleftrightarrow> \<not> chosen < 0 \<and> maxl < reg \<and> reg < chosen)
   \<and> (\<not> chosen < 0 \<and> \<not> (reg < maxl \<and> maxl < chosen) \<and> \<not> (maxl < reg \<and> reg < chosen) \<longrightarrow>
        compute_final_monthly_pension chosen MIN_LUMPSUM maxl reg adj rate nper
          = (case pmt rate nper (adj - chosen) 0 1 of Inl e \<Rightarrow> Inl e | Inr p \<Rightarrow> Inr (- p)))
   \<and> (0 \<le> maxl \<longrightarrow>
        (compute_final_monthly_pension chosen MIN_LUMPSUM maxl reg adj rate nper
           = Inl LumpsumExceedsMaximum
         \<longleftrightarrow> reg < maxl \<and> maxl < chosen))
   \<and> (0 \<le> reg \<longrightarrow>
        (compute_final_monthly_pension chosen MIN_LUMPSUM maxl reg adj rate nper
           = Inl LumpsumExceedsRegulatory
         \<longleftrightarrow> maxl < reg \<and> reg < chosen))"
  using pmt_not_validation_error [of rate nper "adj - chosen" 0 1]
  by (auto simp add: compute_final_monthly_pension_def MIN_LUMPSUM_def split: sum.splits)

theorem compute_final_monthly_pension_checks_witness:
  "((-1::real) < 0
      \<and> compute_final_monthly_pension (-1) MIN_LUMPSUM (-2) (-3) 1000 1 1
          = Inl LumpsumBelowMinimum)
   \<and> (\<not> (150::real) < 0 \<and> (50::real) < 100 \<and> (100::real) < 150
      \<and> compute_final_monthly_pension 150 MIN_LUMPSUM 100 50 1000 1 1
          = Inl LumpsumExceedsMaximum)
   \<and> (\<not> (150::real) < 0 \<and> (50::real) < 100 \<and> (100::real) < 150
      \<and> compute_final_monthly_pension 150 MIN_LUMPSUM 50 100 1000 1 1
          = Inl LumpsumExceedsRegulatory)
   \<and> (\<not> (10::real) < 0 \<and> \<not> ((50::real) < 100 \<and> (100::real) < 10)
      \<and> \<not> ((100::real) < 50 \<and> (50::real) < 10)
      \<and> compute_final_monthly_pension 10 MIN_LUMPSUM 100 50 1000 1 1 = Inr 990)"
proof -
  have p: "pmt 1 1 990 0 1 = Inr (-990)"
    by (simp add: pmt_def py_pow_def py_div_def)
  show ?thesis
    using compute_final_monthly_pension_checks
        [where chosen = "-1" and maxl = "-2" and reg = "-3" and adj = 1000 and rate = 1
           and nper = 1]
      compute_final_monthly_pension_checks
        [where chosen = 150 and maxl = 100 and reg = 50 and adj = 1000 and rate = 1
           and nper = 1]
      compute_final_monthly_pension_checks
        [where chosen = 150 and maxl = 50 and reg = 100 and adj = 1000 and rate = 1
           and nper = 1]
      compute_final_monthly_pension_checks
        [where chosen = 10 and maxl = 100 and reg = 50 and adj = 1000 and rate = 1
           and nper = 1]
    by (simp add: p)
qed

text \<open>
  C9. For a maximum, an adjusted balance and a regulatory amount that are not negative,
  the recommended lump-sum is not negative, does not exceed the maximum when the maximum
  is above the regulatory amount, and does not exceed the regulatory amount when the
  maximum is below it. So \<open>compute_final_monthly_pension\<close> on the recommended
  lump-sum raises none of its three errors: its result is the negated \<open>pmt\<close> of the
  residual, which is what the batch calculation computes directly.
\<close>

theorem recommended_lumpsum_passes_validation:
  assumes "0 \<le> maxl" and "0 \<le> adj" and "0 \<le> reg"
  shows "0 \<le> determine_lumpsum maxl adj reg
    \<and> (reg < maxl \<longrightarrow> determine_lumpsum maxl adj reg \<le> maxl)
    \<and> (maxl < reg \<longrightarrow> determine_lumpsum maxl adj reg \<le> reg)
    \<and> compute_final_monthly_pension (determine_lumpsum maxl adj reg) MIN_LUMPSUM maxl reg adj
          rate nper
        = (case pmt rate nper (adj - determine_lumpsum maxl adj reg) 0 1 of
             Inl e \<Rightarrow> Inl e | Inr p \<Rightarrow> Inr (- p))
    \<and> np_of (compute_final_monthly_pension (determine_lumpsum maxl adj reg) MIN_LUMPSUM maxl
               reg adj rate nper)
        = np_map (\<lambda>p. -1 * p) (np_of (pmt rate nper (adj - determine_lumpsum maxl adj reg) 0 1))"
proof -
  let ?d = "determine_lumpsum maxl adj reg"
  have a: "0 \<le> ?d" using assms by (simp add: determine_lumpsum_def)
  have b: "reg < maxl \<longrightarrow> ?d \<le> maxl" by (simp add: determine_lumpsum_def)
  have c: "maxl < reg \<longrightarrow> ?d \<le> reg" by (simp add: determine_lumpsum_def)
  have e: "compute_final_monthly_pension ?d MIN_LUMPSUM maxl reg adj rate nper
        = (case pmt rate nper (adj - ?d) 0 1 of Inl e \<Rightarrow> Inl e | Inr p \<Rightarrow> Inr (- p))"
    using a b c by (intro no_check_fires) auto
  have f: "np_of (compute_final_monthly_pension ?d MIN_LUMPSUM maxl reg adj rate nper)
        = np_map (\<lambda>p. -1 * p) (np_of (pmt rate nper (adj - ?d) 0 1))"
    unfolding e by (simp add: np_of_def np_map_def split: sum.splits)
  from a b c e f show ?thesis by blast
qed

theorem recommended_lumpsum_passes_validation_witness:
  "(0::real) \<le> 100 \<and> (0::real) \<le> 80 \<and> (0::real) \<le> 50
   \<and> determine_lumpsum 100 80 50 = 80
   \<and> compute_final_monthly_pension 80 MIN_LUMPSUM 100 50 80 1 1 = Inr 0"
proof -
  have d: "determine_lumpsum 100 80 50 = 80" by (simp add: determine_lumpsum_def)
  have p: "pmt 1 1 0 0 1 = Inr 0" by (simp add: pmt_def py_pow_def py_div_def)
  show ?thesis
    using recommended_lumpsum_passes_validation
      [where maxl = 100 and adj = 80 and reg = 50 and rate = 1 and nper = 1]
    by (simp add: d p)
qed

text \<open>
  C10. When the maximum equals the regulatory amount, neither upper-limit check can fire:
  for every chosen amount that is not negative, however large,
  \<open>compute_final_monthly_pension\<close> raises none of its three errors and returns the
  negated \<open>pmt\<close> of the residual \<open>adjusted - chosen\<close>, which may be negative. For a
  rate above \<open>-1\<close> and a non-zero number of periods \<open>pmt\<close> returns a value, so a
  pension is computed.
\<close>

theorem equal_limits_no_upper_bound:
  assumes "maxl = reg" and "0 \<le> chosen"
  shows "compute_final_monthly_pension chosen MIN_LUMPSUM maxl reg adj rate nper
           = (case pmt rate nper (adj - chosen) 0 1 of Inl e \<Rightarrow> Inl e | Inr p \<Rightarrow> Inr (- p))
    \<and> compute_final_monthly_pension chosen MIN_LUMPSUM maxl reg adj rate nper
         \<notin> {Inl LumpsumBelowMinimum, Inl LumpsumExceedsMaximum, Inl LumpsumExceedsRegulatory}
    \<and> (-1 < rate \<and> nper \<noteq> 0 \<longrightarrow>
         (\<exists>p. pmt rate nper (adj - chosen) 0 1 = Inr p
            \<and> compute_final_monthly_pension chosen MIN_LUMPSUM maxl reg adj rate nper
                = Inr (- p)))"
proof -
  have e: "compute_final_monthly_pension chosen MIN_LUMPSUM maxl reg adj rate nper
           = (case pmt rate nper (adj - chosen) 0 1 of Inl e \<Rightarrow> Inl e | Inr p \<Rightarrow> Inr (- p))"
    using assms by (intro no_check_fires) auto
  have n: "compute_final_monthly_pension chosen MIN_LUMPSUM maxl reg adj rate nper
         \<notin> {Inl LumpsumBelowMinimum, Inl LumpsumExceedsMaximum, Inl LumpsumExceedsRegulatory}"
    unfolding e using pmt_not_validation_error [of rate nper "adj - chosen" 0 1]
    by (auto split: sum.splits)
  have r: "-1 < rate \<and> nper \<noteq> 0 \<longrightarrow>
         (\<exists>p. pmt rate nper (adj - chosen) 0 1 = Inr p
            \<and> compute_final_monthly_pension chosen MIN_LUMPSUM maxl reg adj rate nper
                = Inr (- p))"
  proof
    assume h: "-1 < rate \<and> nper \<noteq> 0"
    then obtain p where "pmt rate nper (adj - chosen) 0 1 = Inr p"
      using pmt_returns [of rate nper 1 "adj - chosen" 0] by auto
    then show "\<exists>p. pmt rate nper (adj - chosen) 0 1 = Inr p
            \<and> compute_final_monthly_pension chosen MIN_LUMPSUM maxl reg adj rate nper
                = Inr (- p)"
      unfolding e by simp
  qed
  from e n r show ?thesis by blast
qed

theorem equal_limits_no_upper_bound_witness:
  "(100::real) = 100 \<and> (0::real) \<le> 5000 \<and> (100::real) < 5000 \<and> (1000::real) < 5000
   \<and> -1 < (1::real) \<and> (1::real) \<noteq> 0
   \<and> compute_final_monthly_pension 5000 MIN_LUMPSUM 100 100 1000 1 1 = Inr (-4000)"
proof -
  have p: "pmt 1 1 (-4000) 0 1 = Inr 4000" by (simp add: pmt_def py_pow_def py_div_def)
  show ?thesis
    using equal_limits_no_upper_bound
      [where maxl = 100 and reg = 100 and chosen = 5000 and adj = 1000 and rate = 1
         and nper = 1]
    by (simp add: p)
qed

section \<open>Arrears policy\<close>

text \<open>
  C7. On integers, \<open>get_final_arrears_months\<close> fails with the exceeds-maximum-arrears
  error exactly when the negotiated months exceed the maximum, returns the negotiated
  months when they are strictly below it and the maximum when the two are equal; the
  three literal cases of the specification are instances.
\<close>

theorem get_final_arrears_months_cases:
  fixes negotiated max_allowed :: int
  shows "(get_final_arrears_months negotiated max_allowed = Inl ArrearsExceedMaximum
            \<longleftrightarrow> max_allowed < negotiated)
   \<and> (negotiated < max_allowed \<longrightarrow>
        get_final_arrears_months negotiated max_allowed = Inr negotiated)
   \<and> (negotiated = max_allowed \<longrightarrow>
        get_final_arrears_months negotiated max_allowed = Inr max_allowed)
   \<and> get_final_arrears_months (10::int) 8 = Inl ArrearsExceedMaximum
   \<and> get_final_arrears_months (8::int) 10 = Inr 8
   \<and> get_final_arrears_months (10::int) 10 = Inr 10"
  by (simp add: get_final_arrears_months_def)

theorem get_final_arrears_months_cases_witness:
  "((8::int) < 10 \<and> get_final_arrears_months (8::int) 10 = Inr 8)
   \<and> ((10::int) = 10 \<and> get_final_arrears_months (10::int) 10 = Inr 10)
   \<and> ((8::int) < 10 \<and> get_final_arrears_months (10::int) 8 = Inl ArrearsExceedMaximum)"
  using get_final_arrears_months_cases [where negotiated = 8 and max_allowed = 10]
    get_final_arrears_months_cases [where negotiated = 10 and max_allowed = 10]
    get_final_arrears_months_cases [where negotiated = 10 and max_allowed = 8]
  by simp

section \<open>Rounding and the arrears cap\<close>

lemma py_round_of_int: "py_round (of_int n) = n"
  by (simp add: py_round_def)

lemma py_round_cases:
  "(x - of_int \<lfloor>x\<rfloor> < 1 / 2 \<and> py_round x = \<lfloor>x\<rfloor>)
   \<or> (1 / 2 < x - of_int \<lfloor>x\<rfloor> \<and> py_round x = \<lfloor>x\<rfloor> + 1)
   \<or> (x - of_int \<lfloor>x\<rfloor> = 1 / 2 \<and> (py_round x = \<lfloor>x\<rfloor> \<or> py_round x = \<lfloor>x\<rfloor> + 1))"
  unfolding py_round_def Let_def by (cases "x - of_int \<lfloor>x\<rfloor> < 1 / 2") auto

lemma py_round_nearest: "\<bar>of_int (py_round x) - x\<bar> \<le> 1 / 2"
proof -
  have "of_int \<lfloor>x\<rfloor> \<le> x" "x < of_int \<lfloor>x\<rfloor> + 1" by linarith+
  then show ?thesis using py_round_cases [of x] by auto
qed

lemma py_round_strict:
  assumes "x - of_int \<lfloor>x\<rfloor> \<noteq> 1 / 2"
  shows "\<bar>of_int (py_round x) - x\<bar> < 1 / 2"
proof -
  have "of_int \<lfloor>x\<rfloor> \<le> x" "x < of_int \<lfloor>x\<rfloor> + 1" by linarith+
  then show ?thesis using py_round_cases [of x] assms by auto
qed

lemma py_round_ge_floor: "\<lfloor>x\<rfloor> \<le> py_round x"
  using py_round_cases [of x] by auto

lemma py_round_le_floor_Suc: "py_round x \<le> \<lfloor>x\<rfloor> + 1"
  using py_round_cases [of x] by auto

lemma py_round_mono:
  assumes "x \<le> y"
  shows "py_round x \<le> py_round y"
proof (cases "\<lfloor>x\<rfloor> = \<lfloor>y\<rfloor>")
  case True
  then show ?thesis using assms by (auto simp add: py_round_def Let_def)
next
  case False
  then have "\<lfloor>x\<rfloor> + 1 \<le> \<lfloor>y\<rfloor>" using floor_mono [OF assms] by linarith
  then show ?thesis
    using py_round_le_floor_Suc [of x] py_round_ge_floor [of y] by linarith
qed

text \<open>The source caps and then rounds; rounding and then capping gives the same.\<close>

lemma py_round_min_6: "py_round (min x 6) = min (py_round x) 6"
proof (cases "x \<le> 6")
  case True
  then have "py_round x \<le> 6" using py_round_mono [of x 6] py_round_of_int [of 6] by simp
  then show ?thesis using True by (simp add: min_def)
next
  case False
  then have "6 \<le> py_round x" using py_round_mono [of 6 x] py_round_of_int [of 6] by simp
  then show ?thesis using False py_round_of_int [of 6] by (simp add: min_def)
qed

text \<open>
  A whole number of months plus a whole number of days times \<open>12 / 365.25\<close> is never
  halfway between two whole numbers, so the tie rule of \<^verbatim>\<open>round\<close> never decides.
\<close>

lemma months_no_tie:
  fixes a d :: int
  defines "x \<equiv> (of_int a + of_int d * 12 / 365.25 :: real)"
  shows "x - of_int \<lfloor>x\<rfloor> \<noteq> 1 / 2"
proof
  define f where "f = \<lfloor>x\<rfloor>"
  assume "x - of_int \<lfloor>x\<rfloor> = 1 / 2"
  then have "x - of_int f = 1 / 2" by (simp add: f_def)
  then have "2922 * x = 2922 * of_int f + 1461" by simp
  moreover have "2922 * x = 2922 * of_int a + 96 * of_int d"
    by (simp add: x_def)
  ultimately have "(of_int (2922 * a + 96 * d) :: real) = of_int (2922 * f + 1461)"
    by simp
  then have "2922 * a + 96 * d = 2922 * f + 1461" by (simp only: of_int_eq_iff)
  then have "even (2922 * f + 1461)" by (metis even_add even_mult_iff even_numeral)
  then show False by simp
qed

lemma yearfrac_months:
  "yearfrac rd s e * 12 =
     of_int (12 * years (rd e s) + months (rd e s)) + of_int (days (rd e s)) * 12 / 365.25"
  by (simp add: yearfrac_def Let_def)

text \<open>
  C4. For every pair of dates (in any order) and whatever years, months and days
  \<^verbatim>\<open>relativedelta\<close> gives for them, the maximum arrears are
  \<open>yearfrac * 12\<close> rounded to the nearest whole number, which is less than half a
  month away, and capped at 6 when the sector is \<^verbatim>\<open>PR\<close>; so for \<^verbatim>\<open>PR\<close> the
  result never exceeds 6, and for \<^verbatim>\<open>PU\<close> it is the rounded value with no cap.
\<close>

theorem max_arrears_rounds_and_caps:
  "max_arrears rd sector r v =
     (if sector = ''PR'' then min (py_round (yearfrac rd r v * 12)) 6
      else py_round (yearfrac rd r v * 12))
   \<and> \<bar>of_int (py_round (yearfrac rd r v * 12)) - yearfrac rd r v * 12\<bar> < 1 / 2
   \<and> (sector = ''PR'' \<longrightarrow> max_arrears rd sector r v \<le> 6)
   \<and> max_arrears rd ''PU'' r v = py_round (yearfrac rd r v * 12)"
proof -
  let ?x = "yearfrac rd r v * 12"
  have a: "max_arrears rd sector r v =
     (if sector = ''PR'' then min (py_round ?x) 6 else py_round ?x)"
    by (simp add: max_arrears_def Let_def py_round_min_6)
  have "?x - of_int \<lfloor>?x\<rfloor> \<noteq> 1 / 2"
    unfolding yearfrac_months by (rule months_no_tie)
  then have b: "\<bar>of_int (py_round ?x) - ?x\<bar> < 1 / 2"
    by (rule py_round_strict)
  have c: "sector = ''PR'' \<longrightarrow> max_arrears rd sector r v \<le> 6"
    unfolding a by simp
  have d: "max_arrears rd ''PU'' r v = py_round ?x"
    by (simp add: max_arrears_def Let_def)
  from a b c d show ?thesis by blast
qed

text \<open>
  From 2023-01-01 to 2024-03-04 \<^verbatim>\<open>relativedelta\<close> is one year, two months and
  three days: 14 months for the public sector, 6 for the private sector. From 2024-01-01
  to 2024-03-21 it is two months and twenty days: 3 months, under the cap.
\<close>

theorem max_arrears_rounds_and_caps_witness:
  "max_arrears (\<lambda>e s. \<lparr>years = 1, months = 2, days = 3\<rparr>) ''PR''
       (Date 2023 1 1) (Date 2024 3 4) = 6
   \<and> max_arrears (\<lambda>e s. \<lparr>years = 1, months = 2, days = 3\<rparr>) ''PU''
       (Date 2023 1 1) (Date 2024 3 4) = 14
   \<and> max_arrears (\<lambda>e s. \<lparr>years = 0, months = 2, days = 20\<rparr>) ''PR''
       (Date 2024 1 1) (Date 2024 3 21) = 3"
proof -
  have y: "yearfrac (\<lambda>e s. \<lparr>years = 1, months = 2, days = 3\<rparr>) (Date 2023 1 1) (Date 2024 3 4)
      * 12 = 6866 / 487"
    by (simp add: yearfrac_def)
  have z: "yearfrac (\<lambda>e s. \<lparr>years = 0, months = 2, days = 20\<rparr>) (Date 2024 1 1) (Date 2024 3 21)
      * 12 = 1294 / 487"
    by (simp add: yearfrac_def)
  have r: "py_round (6866 / 487) = 14" "py_round (1294 / 487) = 3"
    by (simp_all add: py_round_def)
  show ?thesis
    using max_arrears_rounds_and_caps
        [where rd = "\<lambda>e s. \<lparr>years = 1, months = 2, days = 3\<rparr>" and sector = "''PR''"
           and r = "Date 2023 1 1" and v = "Date 2024 3 4"]
      max_arrears_rounds_and_caps
        [where rd = "\<lambda>e s. \<lparr>years = 0, months = 2, days = 20\<rparr>" and sector = "''PR''"
           and r = "Date 2024 1 1" and v = "Date 2024 3 21"]
    unfolding y z r by simp
qed

section \<open>The batch engine: lump-sum limits\<close>

lemma upper_M: "upper ''M'' = ''M''"
  by code_simp

lemma upper_PR: "upper ''PR'' = ''PR''"
  by code_simp

text \<open>
  C3. For a frequency of 4 or 12 and an annuity factor \<open>ax\<close> found for the gender,
  the frequency and the retirement age, the batch calculation computes: the adjusted
  balance \<open>B * (1 + 0.08) powr (- m / 12)\<close>; the number of periods
  \<open>2 * f * (ax - 11 / 24)\<close>; the regulatory lump-sum \<open>0.25 * B\<close>; half the salary
  per period \<open>(S / f) * 0.5\<close>; and the maximum lump-sum, the larger of zero and the
  adjusted balance plus \<open>pv\<close> at the net monthly rate for these periods and this
  payment, with no future value and payments due at the start. The net monthly rate is
  \<open>0.105 * (1 - 0.065 - 0.01) / 12\<close>.
\<close>

theorem lumpsum_limits_formulas:
  assumes "f = 4 \<or> f = 12"
    and "lookup_ax tables gender f age = Inr ax"
  shows "\<exists>present.
      pv monthly_rate (2 * of_int f * (ax - 11 / 24)) ((salary_value S / of_int f) * 0.5) 0 1
        = Inr present
      \<and> lumpsum_limits tables gender f age B m S =
          Inr \<lparr>lim_adjusted_balance = B * (1 + 0.08) powr (- (m / 12)),
               lim_regulatory_lumpsum = 0.25 * B,
               lim_fifty_percent_salary = (salary_value S / of_int f) * 0.5,
               lim_nper = 2 * of_int f * (ax - 11 / 24),
               lim_max_lumpsum = max 0 (B * (1 + 0.08) powr (- (m / 12)) + present)\<rparr>
      \<and> monthly_rate = 0.105 * (1 - 0.065 - 0.01) / 12"
proof -
  obtain present where
    p: "pv monthly_rate (2 * of_int f * (ax - 11 / 24)) ((salary_value S / of_int f) * 0.5) 0 1
          = Inr present"
    using pv_monthly_rate_returns by blast
  have f0: "(of_int f :: real) \<noteq> 0" using assms(1) by auto
  have s: "salary_per_period S f = Inr (salary_value S / of_int f)"
    using f0 by (cases S) (simp_all add: salary_per_period_def py_div_def)
  have "lumpsum_limits tables gender f age B m S =
          Inr \<lparr>lim_adjusted_balance = B * (1 + 0.08) powr (- (m / 12)),
               lim_regulatory_lumpsum = 0.25 * B,
               lim_fifty_percent_salary = (salary_value S / of_int f) * 0.5,
               lim_nper = 2 * of_int f * (ax - 11 / 24),
               lim_max_lumpsum = max 0 (B * (1 + 0.08) powr (- (m / 12)) + present)\<rparr>"
    using p
    by (simp add: lumpsum_limits_def Let_def discount_value s assms(2) MIN_PENSION_PAYOUT_def)
  with p monthly_rate_value show ?thesis by blast
qed

theorem lumpsum_limits_formulas_witness:
  "((12::int) = 4 \<or> (12::int) = 12)
   \<and> lookup_ax (scenario_tables [(59, 11), (60, 10)]) ''M'' 12 60 = Inr 10
   \<and> (case lumpsum_limits (scenario_tables [(59, 11), (60, 10)]) ''M'' 12 60 1000000 0
             (PyFloat 600000) of
         Inl e \<Rightarrow> False
       | Inr l \<Rightarrow> lim_adjusted_balance l = 1000000 \<and> lim_regulatory_lumpsum l = 250000
           \<and> lim_fifty_percent_salary l = 25000 \<and> lim_nper l = 229)"
proof -
  have l: "lookup_ax (scenario_tables [(59, 11), (60, 10)]) ''M'' 12 60 = Inr 10"
    by (simp add: lookup_ax_def upper_M)
  show ?thesis
    using lumpsum_limits_formulas [where f = 12 and tables = "scenario_tables [(59, 11), (60, 10)]"
        and gender = "''M''" and age = 60 and ax = 10 and B = 1000000 and m = 0
        and S = "PyFloat 600000", OF _ l] l
    by auto
qed

section \<open>The batch engine: salary and errors\<close>

lemma scenario_arrears:
  "max_arrears scenario_delta ''PR'' (Date 2030 1 1) (Date 2030 1 1) = 0"
  by (simp add: max_arrears_def yearfrac_def py_round_def)

lemma scenario_salary:
  "batch_validated_salary tables ''PR'' d (scenario_row (Inr x)) = Inr (PyFloat (x * 12))"
  by (simp add: batch_validated_salary_def)

lemma scenario_limits_zero_salary:
  "lumpsum_limits (scenario_tables [(60, 10)]) ''M'' 12 60 1000000 0 (PyFloat 0) =
     Inr \<lparr>lim_adjusted_balance = 1000000, lim_regulatory_lumpsum = 250000,
          lim_fifty_percent_salary = 0, lim_nper = 229, lim_max_lumpsum = 1000000\<rparr>"
  by (simp add: lumpsum_limits_def Let_def discount_value salary_per_period_def py_div_def
      lookup_ax_def upper_M pv_zero_payment)

text \<open>
  In the declared-salary branch the interactive application has the salary only when the
  monthly salary is positive; the batch calculation takes twelve times the monthly
  salary whatever its sign.
\<close>

lemma main_declared_salary:
  assumes "\<not> (sector = ''PU'' \<and> date_le cutoff_date retirement)"
  shows "main_validated_salary df sector retirement structure grade stp monthly =
     (if 0 < monthly then Some (monthly * 12) else None)"
  using assms by (auto simp add: main_validated_salary_def)

lemma batch_declared_salary:
  assumes "\<not> (sector = ''PU'' \<and> date_le cutoff_date retirement)"
    and "r_monthly_salary row = Inr monthly"
  shows "batch_validated_salary tables sector retirement row = Inr (PyFloat (monthly * 12))"
  using assms by (auto simp add: batch_validated_salary_def)

text \<open>
  C5. The claim holds in the interactive application and fails in the batch
  calculation. For the scenario client with a declared monthly salary of zero the
  interactive application has no salary (\<^verbatim>\<open>None\<close>), while the batch calculation
  takes the salary 0 and returns a success record that pays the whole balance as the
  lump-sum, with a pension of zero.
\<close>

theorem batch_accepts_zero_declared_salary:
  "main_validated_salary [] ''PR'' (Date 2030 1 1) [] [] [] 0 = None
   \<and> batch_validated_salary (scenario_tables [(60, 10)]) ''PR'' (Date 2030 1 1)
         (scenario_row (Inr 0))
       = Inr (PyFloat 0)
   \<and> process_single_client scenario_delta (scenario_tables [(60, 10)]) (scenario_row (Inr 0)) =
      \<lparr>client_id = ''A1'', status = ''SUCCESS'', error_message = None,
       current_age = Some 60, retirement_age = Some 60, validated_salary = Some 0,
       max_arrears_months = Some 0, final_lumpsum = Some 1000000,
       final_monthly_pension = Some (Finite 0), pension_arrears = Some (Finite 0),
       total_benefit = Some (Finite 1000000), annuity_premium = Some (Finite 0)\<rparr>"
proof -
  have a: "main_validated_salary [] ''PR'' (Date 2030 1 1) [] [] [] 0 = None"
    by (simp add: main_validated_salary_def)
  have b: "batch_validated_salary (scenario_tables [(60, 10)]) ''PR'' (Date 2030 1 1)
      (scenario_row (Inr 0)) = Inr (PyFloat 0)"
    by (simp add: batch_validated_salary_def)
  have p: "pmt monthly_rate 229 0 0 1 = Inr 0"
    by (rule pmt_zero_residual) simp
  have c: "client_calculation scenario_delta (scenario_tables [(60, 10)]) (scenario_row (Inr 0)) =
      Inr \<lparr>client_id = ''A1'', status = ''SUCCESS'', error_message = None,
       current_age = Some 60, retirement_age = Some 60, validated_salary = Some 0,
       max_arrears_months = Some 0, final_lumpsum = Some 1000000,
       final_monthly_pension = Some (Finite 0), pension_arrears = Some (Finite 0),
       total_benefit = Some (Finite 1000000), annuity_premium = Some (Finite 0)\<rparr>"
    by (simp add: client_calculation_def Let_def upper_M upper_PR datedif_Y_def b
        scenario_arrears scenario_limits_zero_salary determine_lumpsum_def p np_of_def np_map_def
        np_map2_def calculate_pension_arrears_def)
  show ?thesis using a b c by (simp add: process_single_client_def)
qed

lemma process_batch_loop_append:
  "process_batch_loop rd tables df results = results @ map (process_single_client rd tables) df"
  by (induction df arbitrary: results) simp_all

lemma process_batch_map:
  "process_batch rd tables df = map (process_single_client rd tables) df"
  by (simp add: process_batch_def process_batch_loop_append)

lemma status_of_process_single_client:
  "status (process_single_client rd tables row) =
     (case client_calculation rd tables row of Inl e \<Rightarrow> ''ERROR'' | Inr r \<Rightarrow> ''SUCCESS'')"
  by (auto simp add: process_single_client_def create_error_result_def client_calculation_def
      Let_def split: sum.splits)

text \<open>
  C6. When the calculation of the client in row \<open>i\<close> of a batch fails with an error,
  the record of that client has the status \<^verbatim>\<open>ERROR\<close>, carries that error, and has
  every computed field empty. The batch still has one record per row, each record is the
  result of its own row alone, and replacing the failing row by any other row leaves the
  records of all other rows as they are.
\<close>

theorem failed_client_error_record:
  assumes "i < length df"
    and "client_calculation rd tables (df ! i) = Inl e"
  shows "process_batch rd tables df ! i =
      \<lparr>client_id = r_client_id (df ! i), status = ''ERROR'', error_message = Some e,
       current_age = None, retirement_age = None, validated_salary = None,
       max_arrears_months = None, final_lumpsum = None, final_monthly_pension = None,
       pension_arrears = None, total_benefit = None, annuity_premium = None\<rparr>
    \<and> process_single_client rd tables (df ! i) = process_batch rd tables df ! i
    \<and> length (process_batch rd tables df) = length df
    \<and> (\<forall>j < length df. process_batch rd tables df ! j = process_single_client rd tables (df ! j))
    \<and> (\<forall>j < length df. \<forall>other. j \<noteq> i \<longrightarrow>
          process_batch rd tables (df[i := other]) ! j = process_batch rd tables df ! j)"
proof -
  have a: "process_single_client rd tables (df ! i) =
      \<lparr>client_id = r_client_id (df ! i), status = ''ERROR'', error_message = Some e,
       current_age = None, retirement_age = None, validated_salary = None,
       max_arrears_months = None, final_lumpsum = None, final_monthly_pension = None,
       pension_arrears = None, total_benefit = None, annuity_premium = None\<rparr>"
    using assms(2) by (simp add: process_single_client_def create_error_result_def)
  have b: "process_batch rd tables df ! i = process_single_client rd tables (df ! i)"
    using assms(1) by (simp add: process_batch_map)
  have c: "length (process_batch rd tables df) = length df"
    by (simp add: process_batch_map)
  have d: "\<forall>j < length df. process_batch rd tables df ! j = process_single_client rd tables (df ! j)"
    by (simp add: process_batch_map)
  have e: "\<forall>j < length df. \<forall>other. j \<noteq> i \<longrightarrow>
          process_batch rd tables (df[i := other]) ! j = process_batch rd tables df ! j"
    by (simp add: process_batch_map)
  from a b c d e show ?thesis by simp
qed

text \<open>
  The scenario client with an empty \<^verbatim>\<open>Male12\<close> table: the retirement age 60 is not
  found. The second row of the batch has a salary cell that does not convert.
\<close>

lemma scenario_age_not_found:
  "client_calculation scenario_delta (scenario_tables []) (scenario_row (Inr 50000))
     = Inl (AgeNotFound 60)"
  by (simp add: client_calculation_def Let_def upper_M upper_PR datedif_Y_def scenario_salary
      scenario_arrears lumpsum_limits_def discount_value salary_per_period_def py_div_def
      lookup_ax_def)

theorem failed_client_error_record_witness:
  "process_batch scenario_delta (scenario_tables [])
       [scenario_row (Inr 50000), scenario_row (Inl ''could not convert string to float'')] ! 0 =
      \<lparr>client_id = ''A1'', status = ''ERROR'', error_message = Some (AgeNotFound 60),
       current_age = None, retirement_age = None, validated_salary = None,
       max_arrears_months = None, final_lumpsum = None, final_monthly_pension = None,
       pension_arrears = None, total_benefit = None, annuity_premium = None\<rparr>
   \<and> length (process_batch scenario_delta (scenario_tables [])
       [scenario_row (Inr 50000), scenario_row (Inl ''could not convert string to float'')]) = 2"
  using failed_client_error_record [where i = 0 and rd = scenario_delta
      and tables = "scenario_tables []" and e = "AgeNotFound 60"
      and df = "[scenario_row (Inr 50000),
                 scenario_row (Inl ''could not convert string to float'')]"]
    scenario_age_not_found
  by simp

end
